theory Spec2Isabelle
  imports Main
begin

section \<open>Python values used by the build helper\<close>

text \<open>
  Truthiness of the optional strings the helper tests with \<^verbatim>\<open>if x\<close>, \<^verbatim>\<open>x and y\<close> and
  \<^verbatim>\<open>x or y\<close>: \<^verbatim>\<open>None\<close> and the empty string are false. (An optional integer such as
  \<^verbatim>\<open>pr_id\<close> is false when it is \<^verbatim>\<open>None\<close> or zero; that test is written out where it is made.)
\<close>

definition truthy_str :: "string option \<Rightarrow> bool" where
  "truthy_str x = (case x of None \<Rightarrow> False | Some s \<Rightarrow> s \<noteq> [])"

text \<open>\<^verbatim>\<open>a or b\<close> on optional strings: the left operand when it is truthy, else the right one.\<close>

definition py_or :: "string option \<Rightarrow> string option \<Rightarrow> string option" where
  "py_or a b = (if truthy_str a then a else b)"

text \<open>\<^verbatim>\<open>str(n)\<close> for an integer: its decimal digits, with a minus sign when negative.\<close>

definition digit_char :: "nat \<Rightarrow> char" where
  "digit_char d = ''0123456789'' ! d"

function str_nat :: "nat \<Rightarrow> string" where
  "str_nat n = (if n < 10 then [digit_char n] else str_nat (n div 10) @ [digit_char (n mod 10)])"
  by pat_completeness auto
termination
  by (relation "measure id") auto

declare str_nat.simps [simp del]

definition str_int :: "int \<Rightarrow> string" where
  "str_int i = (if i < 0 then CHR ''-'' # str_nat (nat (- i)) else str_nat (nat i))"

text \<open>An optional string inside an f-string: \<^verbatim>\<open>None\<close> is rendered as the text None.\<close>

definition fstr_opt :: "string option \<Rightarrow> string" where
  "fstr_opt x = (case x of None \<Rightarrow> ''None'' | Some s \<Rightarrow> s)"

text \<open>\<^verbatim>\<open>needle in s\<close> on strings: \<open>needle\<close> occurs in \<open>s\<close> as a contiguous block.\<close>

fun starts_with :: "string \<Rightarrow> string \<Rightarrow> bool" where
  "starts_with [] s = True"
| "starts_with (c # cs) [] = False"
| "starts_with (c # cs) (d # ds) = (c = d \<and> starts_with cs ds)"

fun str_in :: "string \<Rightarrow> string \<Rightarrow> bool" where
  "str_in needle [] = starts_with needle []"
| "str_in needle (d # ds) = (starts_with needle (d # ds) \<or> str_in needle ds)"

section \<open>Data of the build submission workflow\<close>

text \<open>
  The exception classes the helper raises or catches. \<open>PackitCoprSettingsException\<close> carries
  \<^verbatim>\<open>fields_to_change\<close>, a dict from a field name to the pair of its old and new value (here
  the items in the dict's order, values as the f-string prints them). \<open>OtherException\<close> stands
  for every other subclass of \<^verbatim>\<open>Exception\<close>.
\<close>

datatype exn =
    PackitCoprException string
  | PackitCoprSettingsException string "(string \<times> string \<times> string) list"
  | CoprRequestException string
  | OtherException string

fun str_exn :: "exn \<Rightarrow> string" where
  "str_exn (PackitCoprException m) = m"
| "str_exn (PackitCoprSettingsException m changes) = m"
| "str_exn (CoprRequestException m) = m"
| "str_exn (OtherException m) = m"

datatype CommitStatus =
    CommitStatus_pending
  | CommitStatus_success
  | CommitStatus_failure
  | CommitStatus_error

record TaskResults =
  success :: bool
  details :: "(string \<times> string) list"

text \<open>The \<^verbatim>\<open>metadata\<close> of a job of the package configuration, as far as the helper reads it.\<close>

record JobMetadataConfig =
  md_project :: "string option"
  md_owner :: "string option"
  md_preserve_project :: "bool option"
  md_list_on_homepage :: "bool option"
  md_additional_repos :: "string list option"

record SRPMBuildModel =
  srpm_id :: nat
  srpm_success :: bool

text \<open>A row of the table of Copr builds, one per pair of build id and target.\<close>

record CoprBuildModel =
  cb_id :: nat
  cb_build_id :: string
  cb_commit_sha :: string
  cb_project_name :: string
  cb_owner :: "string option"
  cb_web_url :: string
  cb_target :: string
  cb_status :: string
  cb_srpm_build :: nat
  cb_trigger_model :: nat

text \<open>
  The calls the helper makes to its collaborators (forge, Copr client, record store, task
  queue, telemetry), with the arguments it passes. A run of the helper yields the list of
  these calls in the order they are made.
\<close>

datatype call =
    ReportStatusToAll CommitStatus string "string option"
  | ReportStatusToAllForChroot CommitStatus string string string
  | CreateSrpmIfNeeded
  | SendToSentry exn
  | CreateCoprProjectIfNotExists string "string list" string "bool option" "bool option"
      "string list option"
  | PrComment int string
  | CreateFromFile string string string
  | RequestPermissions string string "(string \<times> bool) list"
  | GetOrCreate string string string "string option" string string string nat nat
  | SendTask string "int list" nat

text \<open>
  The helper object: the event and configuration it is built from, and what its collaborators
  answer. \<open>job_build\<close> and \<open>job_tests\<close> are the jobs found by the base helper (absent when not
  configured), \<open>get_build_targets\<close> lists the set packit's \<^verbatim>\<open>get_build_targets\<close> resolves, in
  the order the set is iterated. Three collaborator calls carry an outcome that may be an
  exception: creating the source package, ensuring the Copr project and submitting the build;
  the other calls are notifications and lookups and return. The workflow with these other
  calls failing too is taken up further down, in \<open>run_copr_build_with_faults\<close>.
\<close>

record helper =
  job_build :: "JobMetadataConfig option"
  job_tests :: "JobMetadataConfig option"
  deployment_is_stg :: bool
  project_namespace :: string
  project_repo :: string
  metadata_identifier :: "string option"
  pr_id :: "int option"
  commit_sha :: string
  db_trigger :: nat
  copr_config_username :: "string option"
  configured_owner :: "string option"
  get_build_targets :: "string list"
  srpm_path :: string
  create_srpm_outcome :: "exn + SRPMBuildModel"
  create_copr_project_outcome :: "exn option"
  create_from_file_outcome :: "exn + int"
  copr_web_build_url :: "int \<Rightarrow> string"
  get_copr_settings_url :: "string \<Rightarrow> string \<Rightarrow> string \<Rightarrow> string"
  get_srpm_log_url_from_flask :: "nat \<Rightarrow> string"
  get_copr_build_info_url_from_flask :: "nat \<Rightarrow> string"

section \<open>Properties of \<open>CoprBuildJobHelper\<close>\<close>

definition default_project_name :: "helper \<Rightarrow> string" where
  "default_project_name h =
     (let stg = (if deployment_is_stg h then ''-stg'' else '''')
      in project_namespace h @ ''-'' @ project_repo h @ ''-'' @ fstr_opt (metadata_identifier h) @ stg)"

definition job_project :: "helper \<Rightarrow> string" where
  "job_project h =
     (case job_build h of
        None \<Rightarrow> default_project_name h
      | Some jb \<Rightarrow>
          (case md_project jb of
             None \<Rightarrow> default_project_name h
           | Some p \<Rightarrow> if p \<noteq> [] then p else default_project_name h))"

definition job_owner :: "helper \<Rightarrow> string option" where
  "job_owner h =
     (case job_build h of
        None \<Rightarrow> copr_config_username h
      | Some jb \<Rightarrow> if truthy_str (md_owner jb) then md_owner jb else copr_config_username h)"

definition preserve_project :: "helper \<Rightarrow> bool option" where
  "preserve_project h = (case job_build h of None \<Rightarrow> None | Some jb \<Rightarrow> md_preserve_project jb)"

definition list_on_homepage :: "helper \<Rightarrow> bool option" where
  "list_on_homepage h = (case job_build h of None \<Rightarrow> None | Some jb \<Rightarrow> md_list_on_homepage jb)"

definition additional_repos :: "helper \<Rightarrow> string list option" where
  "additional_repos h = (case job_build h of None \<Rightarrow> None | Some jb \<Rightarrow> md_additional_repos jb)"

text \<open>The build targets are a set: each target occurs once, whatever the resolver lists.\<close>

definition build_targets :: "helper \<Rightarrow> string list" where
  "build_targets h = remdups (get_build_targets h)"

section \<open>\<open>run_build\<close>\<close>

text \<open>The table of the comment on a settings failure: a header and one row per changed field.\<close>

fun table_rows :: "(string \<times> string \<times> string) list \<Rightarrow> string" where
  "table_rows [] = []"
| "table_rows ((field, old, new) # rest) =
     (''| '' @ field @ '' | '' @ old @ '' | '' @ new @ '' |\<newline>'') @ table_rows rest"

definition table_header :: string where
  "table_header =
     ''| field | old value | new value |\<newline>'' @
     ''| ----- | --------- | --------- |\<newline>''"

definition settings_instructions :: "string \<Rightarrow> string \<Rightarrow> string" where
  "settings_instructions ow proj =
     ''\<newline>'' @
     ''Packit was unable to update the settings above as it is missing `admin` '' @
     ''permissions on the '' @ ow @ ''/'' @ proj @ '' Copr project.\<newline>'' @
     ''\<newline>'' @
     ''To fix this you can do one of the following:\<newline>'' @
     ''\<newline>'' @
     ''- Grant Packit `admin` permissions on the '' @ ow @ ''/'' @ proj @ '' '' @
     ''Copr project.\<newline>'' @
     ''- Change the above Copr project settings manually '' @
     ''to match the Packit configuration.\<newline>'' @
     ''- Update the Packit configuration to match the Copr project settings.\<newline>'' @
     ''\<newline>'' @
     ''Please re-trigger the build, once the issue above is fixed.\<newline>''"

definition settings_comment :: "string \<Rightarrow> string \<Rightarrow> (string \<times> string \<times> string) list \<Rightarrow> string" where
  "settings_comment ow proj changes =
     (let table = table_header @ table_rows changes
      in ''Based on your Packit configuration the settings '' @
         ''of the '' @ ow @ ''/'' @ proj @ '' '' @
         ''Copr project would need to be updated as follows:\<newline>'' @
         ''\<newline>'' @
         table @
         settings_instructions ow proj)"

definition permissions_comment :: "string \<Rightarrow> string \<Rightarrow> string \<Rightarrow> string" where
  "permissions_comment ow proj permissions_url =
     ''We have requested the `builder` permissions '' @
     ''for the '' @ ow @ ''/'' @ proj @ '' Copr project.\<newline>'' @
     ''\<newline>'' @
     ''Please confirm the request on the '' @
     ''['' @ ow @ ''/'' @ proj @ '' Copr project permissions page]'' @
     ''('' @ permissions_url @ '')'' @
     '' and re-trigger the build.''"

definition no_permission_text :: string where
  "no_permission_text = ''You don't have permissions to build in this copr.''"

text \<open>The handler of \<^verbatim>\<open>except PackitCoprSettingsException\<close>: the calls it makes before re-raising.\<close>

definition on_settings_exception ::
  "helper \<Rightarrow> string \<Rightarrow> (string \<times> string \<times> string) list \<Rightarrow> call list" where
  "on_settings_exception h ow changes =
     (case pr_id h of
        None \<Rightarrow> []
      | Some n \<Rightarrow>
          if n \<noteq> 0 then [PrComment n (settings_comment ow (job_project h) changes)] else [])"

text \<open>The handler of \<^verbatim>\<open>except CoprRequestException\<close>: the calls it makes before re-raising.\<close>

definition on_copr_request_exception :: "helper \<Rightarrow> string \<Rightarrow> string \<Rightarrow> call list" where
  "on_copr_request_exception h ow m =
     (if str_in no_permission_text m then
        RequestPermissions ow (job_project h) [(''builder'', True)] #
        (case pr_id h of
           None \<Rightarrow> []
         | Some n \<Rightarrow>
             if n \<noteq> 0 then
               (let permissions_url = get_copr_settings_url h ow (job_project h) ''permissions''
                in [PrComment n (permissions_comment ow (job_project h) permissions_url)])
             else [])
      else [])"

text \<open>
  \<open>run_build\<close> returns the build id and its web url, or the exception it raises, together with
  the calls made. The parameter \<open>target\<close> is the optional argument of the method.
\<close>

definition run_build :: "helper \<Rightarrow> string option \<Rightarrow> (exn + int \<times> string) \<times> call list" where
  "run_build h target =
     (case py_or (job_owner h) (configured_owner h) of
        None \<Rightarrow>
          (Inl (PackitCoprException
             ''Copr owner not set. Use Copr config file or `--owner` when calling packit CLI.''), [])
      | Some ow \<Rightarrow>
          if ow = [] then
            (Inl (PackitCoprException
               ''Copr owner not set. Use Copr config file or `--owner` when calling packit CLI.''), [])
          else
            (let overwrite_booleans = (ow = ''packit'');
                 ensure = CreateCoprProjectIfNotExists (job_project h) (build_targets h) ow
                            (if overwrite_booleans then list_on_homepage h else None)
                            (if overwrite_booleans then preserve_project h else None)
                            (additional_repos h)
             in case create_copr_project_outcome h of
                  Some ex \<Rightarrow>
                    (case ex of
                       PackitCoprSettingsException m changes \<Rightarrow>
                         (Inl ex, ensure # on_settings_exception h ow changes)
                     | _ \<Rightarrow> (Inl ex, [ensure]))
                | None \<Rightarrow>
                    (let submit = CreateFromFile ow (job_project h) (srpm_path h)
                     in case create_from_file_outcome h of
                          Inl ex \<Rightarrow>
                            (case ex of
                               CoprRequestException m \<Rightarrow>
                                 (Inl ex, [ensure, submit] @ on_copr_request_exception h ow m)
                             | _ \<Rightarrow> (Inl ex, [ensure, submit]))
                        | Inr build_id \<Rightarrow>
                            (Inr (build_id, copr_web_build_url h build_id), [ensure, submit]))))"

section \<open>\<open>run_copr_build\<close>\<close>

text \<open>
  Modelled from the spec: \<^verbatim>\<open>CoprBuildModel.get_or_create\<close> (module \<^verbatim>\<open>packit_service.models\<close>,
  not among the sources). "Create or fetch a persisted build record keyed by (build_id,
  target)": the row of the table with this build id and target when there is one, else a new
  row holding the values given, under an id no row has yet.
\<close>

definition has_key :: "string \<Rightarrow> string \<Rightarrow> CoprBuildModel \<Rightarrow> bool" where
  "has_key build_id target r = (cb_build_id r = build_id \<and> cb_target r = target)"

definition next_id :: "CoprBuildModel list \<Rightarrow> nat" where
  "next_id tbl = Suc (fold max (map cb_id tbl) 0)"

definition get_or_create ::
  "CoprBuildModel list \<Rightarrow> string \<Rightarrow> string \<Rightarrow> string \<Rightarrow> string option \<Rightarrow> string \<Rightarrow> string \<Rightarrow>
   string \<Rightarrow> nat \<Rightarrow> nat \<Rightarrow> CoprBuildModel \<times> CoprBuildModel list" where
  "get_or_create tbl build_id sha project_name owner web_url target status srpm_build trigger =
     (case find (has_key build_id target) tbl of
        Some r \<Rightarrow> (r, tbl)
      | None \<Rightarrow>
          (let r = \<lparr>cb_id = next_id tbl, cb_build_id = build_id, cb_commit_sha = sha,
                    cb_project_name = project_name, cb_owner = owner, cb_web_url = web_url,
                    cb_target = target, cb_status = status, cb_srpm_build = srpm_build,
                    cb_trigger_model = trigger\<rparr>
           in (r, tbl @ [r])))"

text \<open>
  The loop \<^verbatim>\<open>for chroot in self.build_targets\<close>: one record and one status report per target.
  It returns the calls made and the table of Copr builds after them.
\<close>

fun record_builds ::
  "helper \<Rightarrow> SRPMBuildModel \<Rightarrow> int \<Rightarrow> string \<Rightarrow> string list \<Rightarrow> CoprBuildModel list \<Rightarrow>
   call list \<times> CoprBuildModel list" where
  "record_builds h srpm build_id web_url [] tbl = ([], tbl)"
| "record_builds h srpm build_id web_url (chroot # chroots) tbl =
     (let (copr_build, tbl1) =
            get_or_create tbl (str_int build_id) (commit_sha h) (job_project h) (job_owner h)
              web_url chroot ''pending'' (srpm_id srpm) (db_trigger h);
          url = get_copr_build_info_url_from_flask h (cb_id copr_build);
          calls =
            [GetOrCreate (str_int build_id) (commit_sha h) (job_project h) (job_owner h)
               web_url chroot ''pending'' (srpm_id srpm) (db_trigger h),
             ReportStatusToAllForChroot CommitStatus_pending ''Starting RPM build...'' url chroot];
          (rest, tbl2) = record_builds h srpm build_id web_url chroots tbl1
      in (calls @ rest, tbl2))"

text \<open>
  \<open>run_copr_build\<close> on a helper and the table of Copr builds: the \<open>TaskResults\<close> it returns or
  the exception that leaves it, the calls made, and the table afterwards.
\<close>

definition run_copr_build ::
  "helper \<Rightarrow> CoprBuildModel list \<Rightarrow> (exn + TaskResults) \<times> call list \<times> CoprBuildModel list" where
  "run_copr_build h tbl =
     (if \<not> (job_build h \<noteq> None \<or> job_tests h \<noteq> None) then
        (let msg = ''No copr_build or tests job defined.''
         in (Inr \<lparr>success = False, details = [(''msg'', msg)]\<rparr>, [], tbl))
      else
        (let started = [ReportStatusToAll CommitStatus_pending ''Building SRPM ...'' (Some []),
                        CreateSrpmIfNeeded]
         in case create_srpm_outcome h of
              Inl ex \<Rightarrow> (Inl ex, started, tbl)
            | Inr srpm_model \<Rightarrow>
                if \<not> srpm_success srpm_model then
                  (let msg = ''SRPM build failed, check the logs for details.''
                   in (Inr \<lparr>success = False, details = [(''msg'', msg)]\<rparr>,
                       started @
                       [ReportStatusToAll CommitStatus_failure msg
                          (Some (get_srpm_log_url_from_flask h (srpm_id srpm_model)))],
                       tbl))
                else
                  (case run_build h None of
                     (Inl ex, submitted) \<Rightarrow>
                       (Inr \<lparr>success = False,
                             details = [(''msg'', ''Submit of the Copr build failed.''),
                                        (''error'', str_exn ex)]\<rparr>,
                        started @ submitted @
                        [SendToSentry ex,
                         ReportStatusToAll CommitStatus_error
                           (''Submit of the build failed: '' @ str_exn ex) None],
                        tbl)
                   | (Inr (build_id, web_url), submitted) \<Rightarrow>
                       (let (recorded, tbl1) =
                              record_builds h srpm_model build_id web_url (build_targets h) tbl
                        in (Inr \<lparr>success = True, details = []\<rparr>,
                            started @ submitted @ recorded @
                            [SendTask ''task.babysit_copr_build'' [build_id] 120],
                            tbl1)))))"

text \<open>
  What is observed of a run of \<open>run_copr_build\<close>: its result, its calls and the table
  afterwards; the rows of a table with a given build id and target; the calls of one kind
  among the calls made.
\<close>

definition result_of :: "'a \<times> 'b \<times> 'c \<Rightarrow> 'a" where
  "result_of x = fst x"

definition calls_of :: "'a \<times> 'b \<times> 'c \<Rightarrow> 'b" where
  "calls_of x = fst (snd x)"

definition table_of :: "'a \<times> 'b \<times> 'c \<Rightarrow> 'c" where
  "table_of x = snd (snd x)"

definition records_for :: "string \<Rightarrow> string \<Rightarrow> CoprBuildModel list \<Rightarrow> CoprBuildModel list" where
  "records_for build_id target tbl = filter (has_key build_id target) tbl"

fun is_get_or_create_for :: "string \<Rightarrow> call \<Rightarrow> bool" where
  "is_get_or_create_for t (GetOrCreate b s p ow w t' st sr tr) = (t' = t)"
| "is_get_or_create_for t _ = False"

fun is_report_for_chroot :: "string \<Rightarrow> call \<Rightarrow> bool" where
  "is_report_for_chroot t (ReportStatusToAllForChroot st d u c) = (c = t)"
| "is_report_for_chroot t _ = False"

fun is_send_task :: "call \<Rightarrow> bool" where
  "is_send_task (SendTask name args countdown) = True"
| "is_send_task _ = False"

fun is_create_from_file :: "call \<Rightarrow> bool" where
  "is_create_from_file (CreateFromFile ow p path) = True"
| "is_create_from_file _ = False"

section \<open>The allowlist\<close>

text \<open>
  Modelled from the spec: \<^verbatim>\<open>AllowlistModel\<close> (module \<^verbatim>\<open>packit_service.models\<close>, not among the
  sources; only its tests are). An entry has an account name and a status. The table is the
  list of its rows. \<open>add_account\<close> is an upsert by account name and returns the entry,
  \<open>get_account\<close> the entry of an account or nothing, \<open>get_accounts_by_status\<close> the account
  names with a status, \<open>remove_account\<close> deletes the entry if present.
\<close>

record AllowlistModel =
  account_name :: string
  status :: string

fun upsert :: "AllowlistModel list \<Rightarrow> string \<Rightarrow> string \<Rightarrow> AllowlistModel list" where
  "upsert [] name st = [\<lparr>account_name = name, status = st\<rparr>]"
| "upsert (e # es) name st =
     (if account_name e = name then e\<lparr>status := st\<rparr> # es else e # upsert es name st)"

definition add_account ::
  "AllowlistModel list \<Rightarrow> string \<Rightarrow> string \<Rightarrow> AllowlistModel \<times> AllowlistModel list" where
  "add_account tbl name st = (\<lparr>account_name = name, status = st\<rparr>, upsert tbl name st)"

definition get_account :: "AllowlistModel list \<Rightarrow> string \<Rightarrow> AllowlistModel option" where
  "get_account tbl name = find (\<lambda>e. account_name e = name) tbl"

definition get_accounts_by_status :: "AllowlistModel list \<Rightarrow> string \<Rightarrow> string list" where
  "get_accounts_by_status tbl st = map account_name (filter (\<lambda>e. status e = st) tbl)"

definition remove_account :: "AllowlistModel list \<Rightarrow> string \<Rightarrow> AllowlistModel list" where
  "remove_account tbl name = filter (\<lambda>e. account_name e \<noteq> name) tbl"

text \<open>A sequence of administrative actions on the table, run from left to right.\<close>

datatype allowlist_op = Add string string | Remove string

fun apply_op :: "AllowlistModel list \<Rightarrow> allowlist_op \<Rightarrow> AllowlistModel list" where
  "apply_op tbl (Add name st) = snd (add_account tbl name st)"
| "apply_op tbl (Remove name) = remove_account tbl name"

definition run_ops :: "AllowlistModel list \<Rightarrow> allowlist_op list \<Rightarrow> AllowlistModel list" where
  "run_ops tbl ops = foldl apply_op tbl ops"

text \<open>
  The fixture \<^verbatim>\<open>multiple_allowlist_entries\<close> of the tests: the table is emptied, then five
  accounts are added, Deoxys twice.
\<close>

definition multiple_allowlist_entries :: "AllowlistModel list" where
  "multiple_allowlist_entries =
     run_ops []
       [Add ''Rayquaza'' ''approved_manually'',
        Add ''Deoxys'' ''approved_manually'',
        Add ''Deoxys'' ''waiting'',
        Add ''Solgaleo'' ''waiting'',
        Add ''Zacian'' ''approved_manually'']"

section \<open>The allowlist command line\<close>

text \<open>\<^verbatim>\<open>sep.join(xs)\<close> on strings.\<close>

fun str_join :: "string \<Rightarrow> string list \<Rightarrow> string" where
  "str_join sep [] = []"
| "str_join sep [x] = x"
| "str_join sep (x # y # ys) = x @ sep @ str_join sep (y # ys)"

text \<open>
  Modelled from the spec: \<^verbatim>\<open>Allowlist.accounts_waiting\<close> (module
  \<^verbatim>\<open>packit_service.worker.allowlist\<close>, not among the sources): the accounts currently in the
  waiting state, as the store lists them by status.
\<close>

definition accounts_waiting :: "AllowlistModel list \<Rightarrow> string list" where
  "accounts_waiting tbl = get_accounts_by_status tbl ''waiting''"

text \<open>The command \<^verbatim>\<open>waiting\<close>: what it writes to standard output (\<^verbatim>\<open>print\<close> ends the line).\<close>

definition waiting :: "AllowlistModel list \<Rightarrow> string" where
  "waiting tbl =
     ''Accounts waiting for approval: '' @ str_join '', '' (accounts_waiting tbl) @ ''\<newline>''"

section \<open>The workflow when notifications and bookkeeping may fail\<close>

text \<open>
  Above, three calls carry an outcome of their own (creating the source package, ensuring the
  Copr project, submitting the build) and every other call returns. Here every other call may
  raise as well: \<open>f\<close> gives, for a call, the exception it raises, if any. The two methods are
  translated again under this reading; a raising call is the last call made, and its
  exception goes where Python sends it: out of an \<^verbatim>\<open>except\<close> handler in place of the exception
  being handled, into the \<^verbatim>\<open>except Exception\<close> of \<open>run_copr_build\<close> when it comes from
  \<open>run_build\<close>, and out of \<open>run_copr_build\<close> from everywhere else.
\<close>

fun raises :: "(call \<Rightarrow> exn option) \<Rightarrow> call \<Rightarrow> exn option" where
  "raises f CreateSrpmIfNeeded = None"
| "raises f (CreateCoprProjectIfNotExists p cs ow l pp ar) = None"
| "raises f (CreateFromFile ow p path) = None"
| "raises f c = f c"

text \<open>Making calls one after the other until one raises.\<close>

fun perform :: "(call \<Rightarrow> exn option) \<Rightarrow> call list \<Rightarrow> exn option \<times> call list" where
  "perform f [] = (None, [])"
| "perform f (c # cs) =
     (case raises f c of
        Some e \<Rightarrow> (Some e, [c])
      | None \<Rightarrow> (case perform f cs of (r, made) \<Rightarrow> (r, c # made)))"

definition run_build_with_faults ::
  "(call \<Rightarrow> exn option) \<Rightarrow> helper \<Rightarrow> string option \<Rightarrow> (exn + int \<times> string) \<times> call list" where
  "run_build_with_faults f h target =
     (case py_or (job_owner h) (configured_owner h) of
        None \<Rightarrow>
          (Inl (PackitCoprException
             ''Copr owner not set. Use Copr config file or `--owner` when calling packit CLI.''), [])
      | Some ow \<Rightarrow>
          if ow = [] then
            (Inl (PackitCoprException
               ''Copr owner not set. Use Copr config file or `--owner` when calling packit CLI.''), [])
          else
            (let overwrite_booleans = (ow = ''packit'');
                 ensure = CreateCoprProjectIfNotExists (job_project h) (build_targets h) ow
                            (if overwrite_booleans then list_on_homepage h else None)
                            (if overwrite_booleans then preserve_project h else None)
                            (additional_repos h)
             in case create_copr_project_outcome h of
                  Some ex \<Rightarrow>
                    (case ex of
                       PackitCoprSettingsException m changes \<Rightarrow>
                         (case perform f (on_settings_exception h ow changes) of
                            (Some e, made) \<Rightarrow> (Inl e, ensure # made)
                          | (None, made) \<Rightarrow> (Inl ex, ensure # made))
                     | _ \<Rightarrow> (Inl ex, [ensure]))
                | None \<Rightarrow>
                    (let submit = CreateFromFile ow (job_project h) (srpm_path h)
                     in case create_from_file_outcome h of
                          Inl ex \<Rightarrow>
                            (case ex of
                               CoprRequestException m \<Rightarrow>
                                 (case perform f (on_copr_request_exception h ow m) of
                                    (Some e, made) \<Rightarrow> (Inl e, [ensure, submit] @ made)
                                  | (None, made) \<Rightarrow> (Inl ex, [ensure, submit] @ made))
                             | _ \<Rightarrow> (Inl ex, [ensure, submit]))
                        | Inr build_id \<Rightarrow>
                            (Inr (build_id, copr_web_build_url h build_id), [ensure, submit]))))"

fun record_builds_with_faults ::
  "(call \<Rightarrow> exn option) \<Rightarrow> helper \<Rightarrow> SRPMBuildModel \<Rightarrow> int \<Rightarrow> string \<Rightarrow> string list \<Rightarrow>
   CoprBuildModel list \<Rightarrow> exn option \<times> call list \<times> CoprBuildModel list" where
  "record_builds_with_faults f h srpm build_id web_url [] tbl = (None, [], tbl)"
| "record_builds_with_faults f h srpm build_id web_url (chroot # chroots) tbl =
     (let create =
            GetOrCreate (str_int build_id) (commit_sha h) (job_project h) (job_owner h)
              web_url chroot ''pending'' (srpm_id srpm) (db_trigger h)
      in case raises f create of
           Some e \<Rightarrow> (Some e, [create], tbl)
         | None \<Rightarrow>
             (let (copr_build, tbl1) =
                    get_or_create tbl (str_int build_id) (commit_sha h) (job_project h)
                      (job_owner h) web_url chroot ''pending'' (srpm_id srpm) (db_trigger h);
                  url = get_copr_build_info_url_from_flask h (cb_id copr_build);
                  report = ReportStatusToAllForChroot CommitStatus_pending
                             ''Starting RPM build...'' url chroot
              in case raises f report of
                   Some e \<Rightarrow> (Some e, [create, report], tbl1)
                 | None \<Rightarrow>
                     (case record_builds_with_faults f h srpm build_id web_url chroots tbl1 of
                        (r, rest, tbl2) \<Rightarrow> (r, create # report # rest, tbl2))))"

definition run_copr_build_with_faults ::
  "(call \<Rightarrow> exn option) \<Rightarrow> helper \<Rightarrow> CoprBuildModel list \<Rightarrow>
   (exn + TaskResults) \<times> call list \<times> CoprBuildModel list" where
  "run_copr_build_with_faults f h tbl =
     (if \<not> (job_build h \<noteq> None \<or> job_tests h \<noteq> None) then
        (let msg = ''No copr_build or tests job defined.''
         in (Inr \<lparr>success = False, details = [(''msg'', msg)]\<rparr>, [], tbl))
      else
        (let building = ReportStatusToAll CommitStatus_pending ''Building SRPM ...'' (Some []);
             started = [building, CreateSrpmIfNeeded]
         in case raises f building of
              Some e \<Rightarrow> (Inl e, [building], tbl)
            | None \<Rightarrow>
               (case create_srpm_outcome h of
                  Inl ex \<Rightarrow> (Inl ex, started, tbl)
                | Inr srpm_model \<Rightarrow>
                    if \<not> srpm_success srpm_model then
                      (let msg = ''SRPM build failed, check the logs for details.'';
                           failed = ReportStatusToAll CommitStatus_failure msg
                                      (Some (get_srpm_log_url_from_flask h (srpm_id srpm_model)))
                       in case raises f failed of
                            Some e \<Rightarrow> (Inl e, started @ [failed], tbl)
                          | None \<Rightarrow>
                              (Inr \<lparr>success = False, details = [(''msg'', msg)]\<rparr>,
                               started @ [failed], tbl))
                    else
                      (case run_build_with_faults f h None of
                         (Inl ex, submitted) \<Rightarrow>
                           (let sentry = SendToSentry ex;
                                report = ReportStatusToAll CommitStatus_error
                                           (''Submit of the build failed: '' @ str_exn ex) None
                            in case raises f sentry of
                                 Some e \<Rightarrow> (Inl e, started @ submitted @ [sentry], tbl)
                               | None \<Rightarrow>
                                   (case raises f report of
                                      Some e \<Rightarrow>
                                        (Inl e, started @ submitted @ [sentry, report], tbl)
                                    | None \<Rightarrow>
                                        (Inr \<lparr>success = False,
                                              details =
                                                [(''msg'', ''Submit of the Copr build failed.''),
                                                 (''error'', str_exn ex)]\<rparr>,
                                         started @ submitted @ [sentry, report], tbl)))
                       | (Inr (build_id, web_url), submitted) \<Rightarrow>
                           (case record_builds_with_faults f h srpm_model build_id web_url
                                   (build_targets h) tbl of
                              (Some e, recorded, tbl1) \<Rightarrow>
                                (Inl e, started @ submitted @ recorded, tbl1)
                            | (None, recorded, tbl1) \<Rightarrow>
                                (let task = SendTask ''task.babysit_copr_build'' [build_id] 120
                                 in case raises f task of
                                      Some e \<Rightarrow>
                                        (Inl e, started @ submitted @ recorded @ [task], tbl1)
                                    | None \<Rightarrow>
                                        (Inr \<lparr>success = True, details = []\<rparr>,
                                         started @ submitted @ recorded @ [task], tbl1)))))))"




section \<open>Example helpers\<close>

text \<open>
  A pull request 7 of packit/hello-world with a build job owned by the account packit, two
  targets, and collaborators that all succeed; the variants used below change one answer.
\<close>

definition example_helper :: helper where
  "example_helper =
     \<lparr>job_build = Some \<lparr>md_project = None, md_owner = Some ''packit'',
                         md_preserve_project = Some True, md_list_on_homepage = Some False,
                         md_additional_repos = None\<rparr>,
      job_tests = None,
      deployment_is_stg = False,
      project_namespace = ''packit'',
      project_repo = ''hello-world'',
      metadata_identifier = Some ''7'',
      pr_id = Some 7,
      commit_sha = ''0e5d8b51'',
      db_trigger = 1,
      copr_config_username = Some ''packit'',
      configured_owner = None,
      get_build_targets = [''fedora-32-x86_64'', ''fedora-33-x86_64''],
      srpm_path = ''hello-0.1.src.rpm'',
      create_srpm_outcome = Inr \<lparr>srpm_id = 3, srpm_success = True\<rparr>,
      create_copr_project_outcome = None,
      create_from_file_outcome = Inr 52,
      copr_web_build_url = (\<lambda>b. ''https://copr/build/'' @ str_int b),
      get_copr_settings_url = (\<lambda>ow p s. ''https://copr/'' @ ow @ ''/'' @ p @ ''/'' @ s),
      get_srpm_log_url_from_flask = (\<lambda>i. ''https://dashboard/srpm/'' @ str_nat i),
      get_copr_build_info_url_from_flask = (\<lambda>i. ''https://dashboard/copr/'' @ str_nat i)\<rparr>"

text \<open>The same event with the build job owned by a third party's account.\<close>

definition third_party_helper :: helper where
  "third_party_helper =
     example_helper\<lparr>job_build :=
       Some \<lparr>md_project = Some ''hello'', md_owner = Some ''jane'',
             md_preserve_project = Some True, md_list_on_homepage = Some True,
             md_additional_repos = None\<rparr>\<rparr>"

text \<open>The source package build runs and fails.\<close>

definition srpm_failed_helper :: helper where
  "srpm_failed_helper =
     example_helper\<lparr>create_srpm_outcome := Inr \<lparr>srpm_id = 3, srpm_success = False\<rparr>\<rparr>"


text \<open>The third party's project needs two settings changed, which the bot may not do.\<close>

definition settings_failed_helper :: helper where
  "settings_failed_helper =
     third_party_helper\<lparr>create_copr_project_outcome :=
       Some (PackitCoprSettingsException ''Copr project update failed.''
               [(''chroots'', ''[f32]'', ''[f32, f33]''),
                (''additional_repos'', ''[]'', ''[copr://x/y]'')])\<rparr>"

text \<open>The bot may not build in the third party's project.\<close>

definition no_permission_helper :: helper where
  "no_permission_helper =
     third_party_helper\<lparr>create_from_file_outcome :=
       Inl (CoprRequestException ''You don't have permissions to build in this copr.'')\<rparr>"

section \<open>Properties of \<open>run_build\<close>\<close>

lemma on_settings_exception_calls:
  "c \<in> set (on_settings_exception h ow changes) \<Longrightarrow> \<exists>n body. c = PrComment n body"
  by (auto simp: on_settings_exception_def split: option.splits if_splits)

lemma on_copr_request_exception_calls:
  "c \<in> set (on_copr_request_exception h ow m) \<Longrightarrow>
     (\<exists>n body. c = PrComment n body) \<or> (\<exists>p perms. c = RequestPermissions ow p perms)"
  by (auto simp: on_copr_request_exception_def Let_def split: option.splits if_splits)

text \<open>Every call that ensures the Copr project is the one \<open>run_build\<close> builds from the helper.\<close>

lemma run_build_ensure_call:
  assumes "CreateCoprProjectIfNotExists p cs ow l pp ar \<in> set (snd (run_build h target))"
  shows "py_or (job_owner h) (configured_owner h) = Some ow \<and> ow \<noteq> [] \<and>
         p = job_project h \<and> cs = build_targets h \<and>
         l = (if ow = ''packit'' then list_on_homepage h else None) \<and>
         pp = (if ow = ''packit'' then preserve_project h else None) \<and>
         ar = additional_repos h"
  using assms
  by (auto simp: run_build_def Let_def
           split: option.splits sum.splits exn.splits if_splits
           dest!: on_settings_exception_calls on_copr_request_exception_calls)

lemma example_run_build:
  "run_build example_helper target =
     (Inr (52, ''https://copr/build/52''),
      [CreateCoprProjectIfNotExists ''packit-hello-world-7''
         [''fedora-32-x86_64'', ''fedora-33-x86_64''] ''packit'' (Some False) (Some True) None,
       CreateFromFile ''packit'' ''packit-hello-world-7'' ''hello-0.1.src.rpm''])"
  by (simp add: run_build_def example_helper_def py_or_def job_owner_def truthy_str_def
      job_project_def default_project_name_def fstr_opt_def build_targets_def
      list_on_homepage_def preserve_project_def additional_repos_def str_int_def
      str_nat.simps digit_char_def)

lemma third_party_run_build:
  "run_build third_party_helper target =
     (Inr (52, ''https://copr/build/52''),
      [CreateCoprProjectIfNotExists ''hello''
         [''fedora-32-x86_64'', ''fedora-33-x86_64''] ''jane'' None None None,
       CreateFromFile ''jane'' ''hello'' ''hello-0.1.src.rpm''])"
  by (simp add: run_build_def third_party_helper_def example_helper_def py_or_def job_owner_def
      truthy_str_def job_project_def build_targets_def
      list_on_homepage_def preserve_project_def additional_repos_def str_int_def
      str_nat.simps digit_char_def)

lemma third_party_settings:
  "list_on_homepage third_party_helper = Some True \<and>
   preserve_project third_party_helper = Some True"
  by (simp add: list_on_homepage_def preserve_project_def third_party_helper_def)

text \<open>
  Claim C5. Whenever \<open>run_build\<close> ensures the Copr project, the owner it passes is the resolved
  owner, and the settings list-on-homepage and preserve-project are the configured values
  only when that owner is the bot's account \<open>packit\<close>; for any other owner both are passed as
  \<^verbatim>\<open>None\<close>.
\<close>

theorem run_build_overwrite_booleans:
  assumes "CreateCoprProjectIfNotExists p cs ow l pp ar \<in> set (snd (run_build h target))"
  shows "py_or (job_owner h) (configured_owner h) = Some ow \<and>
         (if ow = ''packit'' then l = list_on_homepage h \<and> pp = preserve_project h
          else l = None \<and> pp = None)"
  using run_build_ensure_call [OF assms] by simp

theorem run_build_overwrite_booleans_witness:
  "CreateCoprProjectIfNotExists ''hello''
     [''fedora-32-x86_64'', ''fedora-33-x86_64''] ''jane'' None None None
     \<in> set (snd (run_build third_party_helper None)) \<and>
   py_or (job_owner third_party_helper) (configured_owner third_party_helper) = Some ''jane'' \<and>
   list_on_homepage third_party_helper = Some True \<and>
   preserve_project third_party_helper = Some True"
  using run_build_overwrite_booleans [of "''hello''"
      "[''fedora-32-x86_64'', ''fedora-33-x86_64'']" "''jane''" None None None
      third_party_helper None]
  by (simp add: third_party_run_build third_party_settings)

text \<open>
  Claim C10. The result and the calls of \<open>run_build\<close> do not depend on its argument \<open>target\<close>:
  with any target given it behaves as with none, and the project it ensures always gets the
  full set of resolved build targets as its chroots.
\<close>

theorem run_build_ignores_target:
  "run_build h target = run_build h None \<and>
   (\<forall>p cs ow l pp ar.
      CreateCoprProjectIfNotExists p cs ow l pp ar \<in> set (snd (run_build h target)) \<longrightarrow>
      cs = build_targets h)"
proof
  show "run_build h target = run_build h None"
    by (simp add: run_build_def)
next
  show "\<forall>p cs ow l pp ar.
      CreateCoprProjectIfNotExists p cs ow l pp ar \<in> set (snd (run_build h target)) \<longrightarrow>
      cs = build_targets h"
    using run_build_ensure_call by blast
qed

theorem run_build_ignores_target_witness:
  "run_build example_helper (Some ''fedora-32-x86_64'') = run_build example_helper None \<and>
   CreateCoprProjectIfNotExists ''packit-hello-world-7''
     [''fedora-32-x86_64'', ''fedora-33-x86_64''] ''packit'' (Some False) (Some True) None
     \<in> set (snd (run_build example_helper (Some ''fedora-32-x86_64''))) \<and>
   [''fedora-32-x86_64'', ''fedora-33-x86_64''] = build_targets example_helper"
  using run_build_ignores_target [of example_helper "Some ''fedora-32-x86_64''"]
  by (simp add: example_run_build)

text \<open>The comments: what the texts built by the two handlers contain.\<close>

lemma starts_with_append: "starts_with xs (xs @ ys)"
  by (induction xs) auto

lemma str_in_here: "str_in n (n @ ss)"
  by (cases "n @ ss") (auto simp: starts_with_append [of n ss, simplified] dest: sym)

lemma str_in_append: "str_in n (ps @ n @ ss)"
  by (induction ps) (auto simp: str_in_here)

lemma table_rows_row:
  "(field, old, new) \<in> set changes \<Longrightarrow>
   \<exists>ps ss. table_rows changes =
     ps @ (''| '' @ field @ '' | '' @ old @ '' | '' @ new @ '' |\<newline>'') @ ss"
proof (induction changes)
  case Nil
  then show ?case by simp
next
  case (Cons c cs)
  obtain f ol nw where c: "c = (f, ol, nw)" by (cases c) auto
  show ?case
  proof (cases "(field, old, new) = c")
    case True
    then have "table_rows (c # cs) =
        [] @ (''| '' @ field @ '' | '' @ old @ '' | '' @ new @ '' |\<newline>'') @ table_rows cs"
      using c by simp
    then show ?thesis by blast
  next
    case False
    with Cons.prems have "(field, old, new) \<in> set cs" by auto
    from Cons.IH [OF this] obtain ps ss where
      "table_rows cs = ps @ (''| '' @ field @ '' | '' @ old @ '' | '' @ new @ '' |\<newline>'') @ ss"
      by blast
    then have "table_rows (c # cs) =
        ((''| '' @ f @ '' | '' @ ol @ '' | '' @ nw @ '' |\<newline>'') @ ps) @
        (''| '' @ field @ '' | '' @ old @ '' | '' @ new @ '' |\<newline>'') @ ss"
      using c by simp
    then show ?thesis by blast
  qed
qed

lemma settings_comment_row:
  assumes "(field, old, new) \<in> set changes"
  shows "str_in (''| '' @ field @ '' | '' @ old @ '' | '' @ new @ '' |\<newline>'')
           (settings_comment ow proj changes)"
proof -
  from table_rows_row [OF assms] obtain ps ss where
    t: "table_rows changes =
      ps @ (''| '' @ field @ '' | '' @ old @ '' | '' @ new @ '' |\<newline>'') @ ss"
    by blast
  define pre where "pre =
    ''Based on your Packit configuration the settings '' @
    ''of the '' @ ow @ ''/'' @ proj @ '' '' @
    ''Copr project would need to be updated as follows:\<newline>'' @
    ''\<newline>'' @ table_header @ ps"
  have "settings_comment ow proj changes =
      pre @ (''| '' @ field @ '' | '' @ old @ '' | '' @ new @ '' |\<newline>'') @
      (ss @ settings_instructions ow proj)"
    unfolding settings_comment_def Let_def pre_def t by simp
  then show ?thesis
    using str_in_append by metis
qed

lemma settings_comment_instructions:
  "settings_comment ow proj changes =
     (''Based on your Packit configuration the settings '' @
      ''of the '' @ ow @ ''/'' @ proj @ '' '' @
      ''Copr project would need to be updated as follows:\<newline>'' @
      ''\<newline>'' @ table_header @ table_rows changes) @ settings_instructions ow proj"
  unfolding settings_comment_def Let_def by (simp only: append_assoc)

lemma settings_instructions_text:
  "str_in ''To fix this you can do one of the following:\<newline>''
     (settings_instructions ow proj)"
proof -
  have "settings_instructions ow proj =
     (''\<newline>'' @
      ''Packit was unable to update the settings above as it is missing `admin` '' @
      ''permissions on the '' @ ow @ ''/'' @ proj @ '' Copr project.\<newline>'' @
      ''\<newline>'') @
     ''To fix this you can do one of the following:\<newline>'' @
     (''\<newline>'' @
      ''- Grant Packit `admin` permissions on the '' @ ow @ ''/'' @ proj @ '' '' @
      ''Copr project.\<newline>'' @
      ''- Change the above Copr project settings manually '' @
      ''to match the Packit configuration.\<newline>'' @
      ''- Update the Packit configuration to match the Copr project settings.\<newline>'' @
      ''\<newline>'' @
      ''Please re-trigger the build, once the issue above is fixed.\<newline>'')"
    unfolding settings_instructions_def by (simp only: append_assoc)
  then show ?thesis
    by (simp only: str_in_append)
qed

lemma permissions_comment_link:
  "str_in (''('' @ url @ '')'') (permissions_comment ow proj url)"
proof -
  have "permissions_comment ow proj url =
     (''We have requested the `builder` permissions '' @
      ''for the '' @ ow @ ''/'' @ proj @ '' Copr project.\<newline>'' @
      ''\<newline>'' @
      ''Please confirm the request on the '' @
      ''['' @ ow @ ''/'' @ proj @ '' Copr project permissions page]'') @
     (''('' @ url @ '')'') @
     '' and re-trigger the build.''"
    unfolding permissions_comment_def by (simp only: append_assoc)
  then show ?thesis
    by (simp only: str_in_append)
qed

lemma permissions_comment_text:
  "str_in ''Please confirm the request on the '' (permissions_comment ow proj url) \<and>
   str_in '' and re-trigger the build.'' (permissions_comment ow proj url)"
proof -
  have a: "permissions_comment ow proj url =
     (''We have requested the `builder` permissions '' @
      ''for the '' @ ow @ ''/'' @ proj @ '' Copr project.\<newline>'' @
      ''\<newline>'') @
     ''Please confirm the request on the '' @
     (''['' @ ow @ ''/'' @ proj @ '' Copr project permissions page]'' @
      ''('' @ url @ '')'' @
      '' and re-trigger the build.'')"
    unfolding permissions_comment_def by (simp only: append_assoc)
  have b: "permissions_comment ow proj url =
     (''We have requested the `builder` permissions '' @
      ''for the '' @ ow @ ''/'' @ proj @ '' Copr project.\<newline>'' @
      ''\<newline>'' @
      ''Please confirm the request on the '' @
      ''['' @ ow @ ''/'' @ proj @ '' Copr project permissions page]'' @
      ''('' @ url @ '')'') @
     '' and re-trigger the build.'' @ []"
    unfolding permissions_comment_def by (simp only: append_assoc append_Nil2)
  have "str_in ''Please confirm the request on the '' (permissions_comment ow proj url)"
    by (subst a) (rule str_in_append)
  moreover have "str_in '' and re-trigger the build.'' (permissions_comment ow proj url)"
    by (subst b) (rule str_in_append)
  ultimately show ?thesis by blast
qed

lemma run_build_settings_result:
  assumes "py_or (job_owner h) (configured_owner h) = Some ow" and "ow \<noteq> []"
    and "create_copr_project_outcome h = Some (PackitCoprSettingsException m changes)"
  shows "run_build h target =
           (Inl (PackitCoprSettingsException m changes),
            CreateCoprProjectIfNotExists (job_project h) (build_targets h) ow
              (if ow = ''packit'' then list_on_homepage h else None)
              (if ow = ''packit'' then preserve_project h else None)
              (additional_repos h) # on_settings_exception h ow changes)"
  unfolding run_build_def Let_def using assms by simp

lemma run_build_permission_result:
  assumes "py_or (job_owner h) (configured_owner h) = Some ow" and "ow \<noteq> []"
    and "create_copr_project_outcome h = None"
    and "create_from_file_outcome h = Inl (CoprRequestException m)"
  shows "run_build h target =
           (Inl (CoprRequestException m),
            [CreateCoprProjectIfNotExists (job_project h) (build_targets h) ow
               (if ow = ''packit'' then list_on_homepage h else None)
               (if ow = ''packit'' then preserve_project h else None)
               (additional_repos h),
             CreateFromFile ow (job_project h) (srpm_path h)] @
            on_copr_request_exception h ow m)"
  unfolding run_build_def Let_def using assms by simp

lemma table_rows_concat:
  "table_rows changes =
     concat (map (\<lambda>(field, old, new).
       ''| '' @ field @ '' | '' @ old @ '' | '' @ new @ '' |\<newline>'') changes)"
  by (induction changes rule: table_rows.induct) simp_all

lemma settings_comment_text:
  "settings_comment ow proj changes =
     ''Based on your Packit configuration the settings '' @
     ''of the '' @ ow @ ''/'' @ proj @ '' '' @
     ''Copr project would need to be updated as follows:\<newline>'' @
     ''\<newline>'' @
     ''| field | old value | new value |\<newline>'' @
     ''| ----- | --------- | --------- |\<newline>'' @
     table_rows changes @
     ''\<newline>'' @
     ''Packit was unable to update the settings above as it is missing `admin` '' @
     ''permissions on the '' @ ow @ ''/'' @ proj @ '' Copr project.\<newline>'' @
     ''\<newline>'' @
     ''To fix this you can do one of the following:\<newline>'' @
     ''\<newline>'' @
     ''- Grant Packit `admin` permissions on the '' @ ow @ ''/'' @ proj @ '' '' @
     ''Copr project.\<newline>'' @
     ''- Change the above Copr project settings manually '' @
     ''to match the Packit configuration.\<newline>'' @
     ''- Update the Packit configuration to match the Copr project settings.\<newline>'' @
     ''\<newline>'' @
     ''Please re-trigger the build, once the issue above is fixed.\<newline>''"
  unfolding settings_comment_def settings_instructions_def table_header_def Let_def
  by (simp only: append_assoc)

text \<open>
  Claim C6. When the resolved owner is set and ensuring the Copr project raises the settings
  exception, \<open>run_build\<close> raises that same exception. With a pull request (\<open>pr_id\<close> set and
  not zero) the calls are the ensure call and exactly one comment on that pull request.
  The comment is the text of the source: the sentence naming the project, the table with its
  heading and one row with the field, the old and the new value for every entry of
  \<^verbatim>\<open>fields_to_change\<close>, in their order and nothing else, and then the instructions: that
  Packit lacks the admin permission on the project, the three ways to fix this (grant the
  permission, change the project settings by hand, change the Packit configuration) and the
  request to re-trigger the build. Without a pull request the ensure call is the only call.
\<close>

theorem run_build_settings_exception:
  assumes "py_or (job_owner h) (configured_owner h) = Some ow" and "ow \<noteq> []"
    and "create_copr_project_outcome h = Some (PackitCoprSettingsException m changes)"
  shows "fst (run_build h target) = Inl (PackitCoprSettingsException m changes) \<and>
         (\<forall>n. pr_id h = Some n \<and> n \<noteq> 0 \<longrightarrow>
            snd (run_build h target) =
              [CreateCoprProjectIfNotExists (job_project h) (build_targets h) ow
                 (if ow = ''packit'' then list_on_homepage h else None)
                 (if ow = ''packit'' then preserve_project h else None)
                 (additional_repos h),
               PrComment n (settings_comment ow (job_project h) changes)]) \<and>
         (pr_id h = None \<or> pr_id h = Some 0 \<longrightarrow>
            snd (run_build h target) =
              [CreateCoprProjectIfNotExists (job_project h) (build_targets h) ow
                 (if ow = ''packit'' then list_on_homepage h else None)
                 (if ow = ''packit'' then preserve_project h else None)
                 (additional_repos h)]) \<and>
         (\<forall>(field, old, new) \<in> set changes.
            str_in (''| '' @ field @ '' | '' @ old @ '' | '' @ new @ '' |\<newline>'')
              (settings_comment ow (job_project h) changes)) \<and>
         (\<exists>ps. settings_comment ow (job_project h) changes =
                 ps @ settings_instructions ow (job_project h)) \<and>
         str_in ''To fix this you can do one of the following:\<newline>''
           (settings_instructions ow (job_project h)) \<and>
         settings_comment ow (job_project h) changes =
           ''Based on your Packit configuration the settings '' @
           ''of the '' @ ow @ ''/'' @ job_project h @ '' '' @
           ''Copr project would need to be updated as follows:\<newline>'' @
           ''\<newline>'' @
           ''| field | old value | new value |\<newline>'' @
           ''| ----- | --------- | --------- |\<newline>'' @
           table_rows changes @
           ''\<newline>'' @
           ''Packit was unable to update the settings above as it is missing `admin` '' @
           ''permissions on the '' @ ow @ ''/'' @ job_project h @ '' Copr project.\<newline>'' @
           ''\<newline>'' @
           ''To fix this you can do one of the following:\<newline>'' @
           ''\<newline>'' @
           ''- Grant Packit `admin` permissions on the '' @ ow @ ''/'' @ job_project h @ '' '' @
           ''Copr project.\<newline>'' @
           ''- Change the above Copr project settings manually '' @
           ''to match the Packit configuration.\<newline>'' @
           ''- Update the Packit configuration to match the Copr project settings.\<newline>'' @
           ''\<newline>'' @
           ''Please re-trigger the build, once the issue above is fixed.\<newline>'' \<and>
         table_rows changes =
           concat (map (\<lambda>(field, old, new).
             ''| '' @ field @ '' | '' @ old @ '' | '' @ new @ '' |\<newline>'') changes)"
proof -
  note run = run_build_settings_result [OF assms, of target]
  note body = settings_comment_text [of ow "job_project h" changes]
  note rows_eq = table_rows_concat [of changes]
  have r: "fst (run_build h target) = Inl (PackitCoprSettingsException m changes)"
    by (simp only: run fst_conv)
  have c1: "\<forall>n. pr_id h = Some n \<and> n \<noteq> 0 \<longrightarrow>
            snd (run_build h target) =
              [CreateCoprProjectIfNotExists (job_project h) (build_targets h) ow
                 (if ow = ''packit'' then list_on_homepage h else None)
                 (if ow = ''packit'' then preserve_project h else None)
                 (additional_repos h),
               PrComment n (settings_comment ow (job_project h) changes)]"
    by (auto simp only: run snd_conv on_settings_exception_def split: option.splits if_splits)
  have c2: "pr_id h = None \<or> pr_id h = Some 0 \<longrightarrow>
            snd (run_build h target) =
              [CreateCoprProjectIfNotExists (job_project h) (build_targets h) ow
                 (if ow = ''packit'' then list_on_homepage h else None)
                 (if ow = ''packit'' then preserve_project h else None)
                 (additional_repos h)]"
    by (auto simp only: run snd_conv on_settings_exception_def split: option.splits if_splits)
  have rows: "\<forall>(field, old, new) \<in> set changes.
            str_in (''| '' @ field @ '' | '' @ old @ '' | '' @ new @ '' |\<newline>'')
              (settings_comment ow (job_project h) changes)"
    using settings_comment_row by blast
  have ins: "\<exists>ps. settings_comment ow (job_project h) changes =
                 ps @ settings_instructions ow (job_project h)"
    using settings_comment_instructions by blast
  show ?thesis
    using r c1 c2 rows ins settings_instructions_text body rows_eq by blast
qed

text \<open>
  Claim C7. When submitting the source package raises a \<open>CoprRequestException\<close> whose message
  says the bot has no permission to build in the project, \<open>run_build\<close> requests the builder
  permission on the project, then, with a pull request, posts one comment that links the
  project's permissions page and asks to confirm the request and re-trigger the build; in
  both cases it raises that same exception.
\<close>

theorem run_build_no_build_permission:
  assumes "py_or (job_owner h) (configured_owner h) = Some ow" and "ow \<noteq> []"
    and "create_copr_project_outcome h = None"
    and "create_from_file_outcome h = Inl (CoprRequestException m)"
    and "str_in no_permission_text m"
  shows "fst (run_build h target) = Inl (CoprRequestException m) \<and>
         (\<forall>n. pr_id h = Some n \<and> n \<noteq> 0 \<longrightarrow>
            snd (run_build h target) =
              [CreateCoprProjectIfNotExists (job_project h) (build_targets h) ow
                 (if ow = ''packit'' then list_on_homepage h else None)
                 (if ow = ''packit'' then preserve_project h else None)
                 (additional_repos h),
               CreateFromFile ow (job_project h) (srpm_path h),
               RequestPermissions ow (job_project h) [(''builder'', True)],
               PrComment n (permissions_comment ow (job_project h)
                  (get_copr_settings_url h ow (job_project h) ''permissions''))]) \<and>
         (pr_id h = None \<or> pr_id h = Some 0 \<longrightarrow>
            snd (run_build h target) =
              [CreateCoprProjectIfNotExists (job_project h) (build_targets h) ow
                 (if ow = ''packit'' then list_on_homepage h else None)
                 (if ow = ''packit'' then preserve_project h else None)
                 (additional_repos h),
               CreateFromFile ow (job_project h) (srpm_path h),
               RequestPermissions ow (job_project h) [(''builder'', True)]]) \<and>
         str_in (''('' @ get_copr_settings_url h ow (job_project h) ''permissions'' @ '')'')
           (permissions_comment ow (job_project h)
              (get_copr_settings_url h ow (job_project h) ''permissions'')) \<and>
         str_in ''Please confirm the request on the ''
           (permissions_comment ow (job_project h)
              (get_copr_settings_url h ow (job_project h) ''permissions'')) \<and>
         str_in '' and re-trigger the build.''
           (permissions_comment ow (job_project h)
              (get_copr_settings_url h ow (job_project h) ''permissions''))"
proof -
  note run = run_build_permission_result [OF assms(1-4), of target]
  have r: "fst (run_build h target) = Inl (CoprRequestException m)"
    by (simp only: run fst_conv)
  have c1: "\<forall>n. pr_id h = Some n \<and> n \<noteq> 0 \<longrightarrow>
            snd (run_build h target) =
              [CreateCoprProjectIfNotExists (job_project h) (build_targets h) ow
                 (if ow = ''packit'' then list_on_homepage h else None)
                 (if ow = ''packit'' then preserve_project h else None)
                 (additional_repos h),
               CreateFromFile ow (job_project h) (srpm_path h),
               RequestPermissions ow (job_project h) [(''builder'', True)],
               PrComment n (permissions_comment ow (job_project h)
                  (get_copr_settings_url h ow (job_project h) ''permissions''))]"
    using assms(5)
    by (auto simp only: run snd_conv on_copr_request_exception_def Let_def append.simps
        if_True split: option.splits if_splits)
  have c2: "pr_id h = None \<or> pr_id h = Some 0 \<longrightarrow>
            snd (run_build h target) =
              [CreateCoprProjectIfNotExists (job_project h) (build_targets h) ow
                 (if ow = ''packit'' then list_on_homepage h else None)
                 (if ow = ''packit'' then preserve_project h else None)
                 (additional_repos h),
               CreateFromFile ow (job_project h) (srpm_path h),
               RequestPermissions ow (job_project h) [(''builder'', True)]]"
    using assms(5)
    by (auto simp only: run snd_conv on_copr_request_exception_def Let_def append.simps
        if_True split: option.splits if_splits)
  show ?thesis
    using r c1 c2 permissions_comment_link permissions_comment_text by blast
qed

lemma settings_failed_facts:
  "py_or (job_owner settings_failed_helper) (configured_owner settings_failed_helper) = Some ''jane''"
  "job_project settings_failed_helper = ''hello''"
  "build_targets settings_failed_helper = [''fedora-32-x86_64'', ''fedora-33-x86_64'']"
  "additional_repos settings_failed_helper = None"
  "pr_id settings_failed_helper = Some 7"
  "create_copr_project_outcome settings_failed_helper =
     Some (PackitCoprSettingsException ''Copr project update failed.''
             [(''chroots'', ''[f32]'', ''[f32, f33]''),
              (''additional_repos'', ''[]'', ''[copr://x/y]'')])"
  by (simp_all add: settings_failed_helper_def third_party_helper_def example_helper_def
      py_or_def job_owner_def truthy_str_def job_project_def build_targets_def
      additional_repos_def)

lemma no_permission_facts:
  "py_or (job_owner no_permission_helper) (configured_owner no_permission_helper) = Some ''jane''"
  "job_project no_permission_helper = ''hello''"
  "build_targets no_permission_helper = [''fedora-32-x86_64'', ''fedora-33-x86_64'']"
  "additional_repos no_permission_helper = None"
  "pr_id no_permission_helper = Some 7"
  "srpm_path no_permission_helper = ''hello-0.1.src.rpm''"
  "create_copr_project_outcome no_permission_helper = None"
  "create_from_file_outcome no_permission_helper =
     Inl (CoprRequestException ''You don't have permissions to build in this copr.'')"
  "get_copr_settings_url no_permission_helper ''jane'' ''hello'' ''permissions'' =
     ''https://copr/jane/hello/permissions''"
  by (simp_all add: no_permission_helper_def third_party_helper_def example_helper_def
      py_or_def job_owner_def truthy_str_def job_project_def build_targets_def
      additional_repos_def)

lemma no_permission_text_in_itself:
  "str_in no_permission_text ''You don't have permissions to build in this copr.''"
  using str_in_append [of no_permission_text "[]" "[]"] by (simp add: no_permission_text_def)

theorem run_build_settings_exception_witness:
  "py_or (job_owner settings_failed_helper) (configured_owner settings_failed_helper) =
     Some ''jane'' \<and>
   create_copr_project_outcome settings_failed_helper =
     Some (PackitCoprSettingsException ''Copr project update failed.''
             [(''chroots'', ''[f32]'', ''[f32, f33]''),
              (''additional_repos'', ''[]'', ''[copr://x/y]'')]) \<and>
   pr_id settings_failed_helper = Some 7 \<and>
   run_build settings_failed_helper None =
     (Inl (PackitCoprSettingsException ''Copr project update failed.''
             [(''chroots'', ''[f32]'', ''[f32, f33]''),
              (''additional_repos'', ''[]'', ''[copr://x/y]'')]),
      [CreateCoprProjectIfNotExists ''hello'' [''fedora-32-x86_64'', ''fedora-33-x86_64'']
         ''jane'' None None None,
       PrComment 7 (settings_comment ''jane'' ''hello''
             [(''chroots'', ''[f32]'', ''[f32, f33]''),
              (''additional_repos'', ''[]'', ''[copr://x/y]'')])]) \<and>
   str_in ''| chroots | [f32] | [f32, f33] |\<newline>''
     (settings_comment ''jane'' ''hello''
             [(''chroots'', ''[f32]'', ''[f32, f33]''),
              (''additional_repos'', ''[]'', ''[copr://x/y]'')])"
proof -
  have ne: "''jane'' \<noteq> []" by simp
  note t = run_build_settings_exception [OF settings_failed_facts(1) ne settings_failed_facts(6),
      of None]
  have run: "run_build settings_failed_helper None =
     (Inl (PackitCoprSettingsException ''Copr project update failed.''
             [(''chroots'', ''[f32]'', ''[f32, f33]''),
              (''additional_repos'', ''[]'', ''[copr://x/y]'')]),
      [CreateCoprProjectIfNotExists ''hello'' [''fedora-32-x86_64'', ''fedora-33-x86_64'']
         ''jane'' None None None,
       PrComment 7 (settings_comment ''jane'' ''hello''
             [(''chroots'', ''[f32]'', ''[f32, f33]''),
              (''additional_repos'', ''[]'', ''[copr://x/y]'')])])"
    using t settings_failed_facts(5)
    by (simp add: prod_eq_iff settings_failed_facts(2-4))
  have row: "str_in ''| chroots | [f32] | [f32, f33] |\<newline>''
     (settings_comment ''jane'' ''hello''
             [(''chroots'', ''[f32]'', ''[f32, f33]''),
              (''additional_repos'', ''[]'', ''[copr://x/y]'')])"
    using t by (simp add: settings_failed_facts(2))
  show ?thesis
    using run row settings_failed_facts(1,5,6) by blast
qed

theorem run_build_no_build_permission_witness:
  "py_or (job_owner no_permission_helper) (configured_owner no_permission_helper) =
     Some ''jane'' \<and>
   create_copr_project_outcome no_permission_helper = None \<and>
   create_from_file_outcome no_permission_helper =
     Inl (CoprRequestException ''You don't have permissions to build in this copr.'') \<and>
   str_in no_permission_text ''You don't have permissions to build in this copr.'' \<and>
   pr_id no_permission_helper = Some 7 \<and>
   run_build no_permission_helper None =
     (Inl (CoprRequestException ''You don't have permissions to build in this copr.''),
      [CreateCoprProjectIfNotExists ''hello'' [''fedora-32-x86_64'', ''fedora-33-x86_64'']
         ''jane'' None None None,
       CreateFromFile ''jane'' ''hello'' ''hello-0.1.src.rpm'',
       RequestPermissions ''jane'' ''hello'' [(''builder'', True)],
       PrComment 7 (permissions_comment ''jane'' ''hello''
          ''https://copr/jane/hello/permissions'')]) \<and>
   str_in ''(https://copr/jane/hello/permissions)''
     (permissions_comment ''jane'' ''hello'' ''https://copr/jane/hello/permissions'')"
proof -
  have ne: "''jane'' \<noteq> []" by simp
  note t = run_build_no_build_permission [OF no_permission_facts(1) ne no_permission_facts(7)
      no_permission_facts(8) no_permission_text_in_itself, of None]
  have run: "run_build no_permission_helper None =
     (Inl (CoprRequestException ''You don't have permissions to build in this copr.''),
      [CreateCoprProjectIfNotExists ''hello'' [''fedora-32-x86_64'', ''fedora-33-x86_64'']
         ''jane'' None None None,
       CreateFromFile ''jane'' ''hello'' ''hello-0.1.src.rpm'',
       RequestPermissions ''jane'' ''hello'' [(''builder'', True)],
       PrComment 7 (permissions_comment ''jane'' ''hello''
          ''https://copr/jane/hello/permissions'')])"
    using t no_permission_facts(5)
    by (simp add: prod_eq_iff no_permission_facts(2-4,6,9))
  have link: "str_in ''(https://copr/jane/hello/permissions)''
     (permissions_comment ''jane'' ''hello'' ''https://copr/jane/hello/permissions'')"
    using t by (simp add: no_permission_facts(2,9))
  show ?thesis
    using run link no_permission_facts(1,5,7,8) no_permission_text_in_itself by blast
qed

lemma run_build_call_kinds:
  assumes "c \<in> set (snd (run_build h target))"
  shows "\<not> is_get_or_create_for t c \<and> \<not> is_report_for_chroot t c \<and> \<not> is_send_task c"
  using assms
  by (auto simp: run_build_def Let_def
           split: option.splits sum.splits exn.splits if_splits
           dest!: on_settings_exception_calls on_copr_request_exception_calls)

lemma run_build_filters:
  "filter (is_get_or_create_for t) (snd (run_build h target)) = []"
  "filter (is_report_for_chroot t) (snd (run_build h target)) = []"
  "filter is_send_task (snd (run_build h target)) = []"
  using run_build_call_kinds [of _ h target t] by (auto simp: filter_empty_conv)

section \<open>Properties of \<open>run_copr_build\<close>\<close>

text \<open>The record store: what \<open>get_or_create\<close> and the loop over the targets leave in the table.\<close>

lemma find_append_if:
  "find P (xs @ ys) = (case find P xs of None \<Rightarrow> find P ys | Some x \<Rightarrow> Some x)"
  by (induction xs) auto

lemma find_filter_hd:
  "find P xs = (case filter P xs of [] \<Rightarrow> None | x # _ \<Rightarrow> Some x)"
  by (induction xs) auto

lemma get_or_create_find:
  assumes "get_or_create tbl b s p ow w t st sr tr = (r, tbl1)"
  shows "find (has_key b t) tbl1 = Some r"
  using assms
  by (auto simp: get_or_create_def Let_def find_append_if has_key_def split: option.splits)

lemma get_or_create_stable:
  assumes "find (has_key b' t') tbl = Some r'"
  shows "find (has_key b' t') (snd (get_or_create tbl b s p ow w t st sr tr)) = Some r'"
  using assms
  by (auto simp: get_or_create_def Let_def find_append_if split: option.splits)

lemma get_or_create_records_for:
  assumes "get_or_create tbl b s p ow w t st sr tr = (r, tbl1)"
  shows "records_for b' t' tbl1 =
           (if b' = b \<and> t' = t \<and> records_for b t tbl = [] then [r] else records_for b' t' tbl)"
  using assms
  by (auto simp: get_or_create_def Let_def records_for_def find_filter_hd has_key_def
           split: option.splits list.splits)

lemma record_builds_Cons:
  assumes "get_or_create tbl (str_int bid) (commit_sha h) (job_project h) (job_owner h)
             url t ''pending'' (srpm_id srpm) (db_trigger h) = (r, tbl1)"
  shows "record_builds h srpm bid url (t # ts) tbl =
           (GetOrCreate (str_int bid) (commit_sha h) (job_project h) (job_owner h)
               url t ''pending'' (srpm_id srpm) (db_trigger h) #
            ReportStatusToAllForChroot CommitStatus_pending ''Starting RPM build...''
               (get_copr_build_info_url_from_flask h (cb_id r)) t #
            fst (record_builds h srpm bid url ts tbl1),
            snd (record_builds h srpm bid url ts tbl1))"
  using assms by (simp add: Let_def split: prod.splits)

lemma record_builds_stable:
  "find (has_key b t) tbl = Some r \<Longrightarrow>
   find (has_key b t) (snd (record_builds h srpm bid url ts tbl)) = Some r"
proof (induction ts arbitrary: tbl)
  case Nil
  then show ?case by simp
next
  case (Cons c cs)
  obtain r1 tbl1 where g:
    "get_or_create tbl (str_int bid) (commit_sha h) (job_project h) (job_owner h)
       url c ''pending'' (srpm_id srpm) (db_trigger h) = (r1, tbl1)"
    by (cases "get_or_create tbl (str_int bid) (commit_sha h) (job_project h) (job_owner h)
       url c ''pending'' (srpm_id srpm) (db_trigger h)") auto
  have "find (has_key b t) tbl1 = Some r"
    using get_or_create_stable [OF Cons.prems, of "str_int bid" "commit_sha h" "job_project h"
        "job_owner h" url c "''pending''" "srpm_id srpm" "db_trigger h"] g
    by simp
  then show ?case
    using Cons.IH [of tbl1] by (simp add: record_builds_Cons [OF g] del: record_builds.simps)
qed

lemma record_builds_other_target:
  "t \<notin> set ts \<Longrightarrow>
   records_for (str_int bid) t (snd (record_builds h srpm bid url ts tbl)) =
     records_for (str_int bid) t tbl \<and>
   filter (is_report_for_chroot t) (fst (record_builds h srpm bid url ts tbl)) = [] \<and>
   filter (is_get_or_create_for t) (fst (record_builds h srpm bid url ts tbl)) = []"
proof (induction ts arbitrary: tbl)
  case Nil
  then show ?case by simp
next
  case (Cons c cs)
  obtain r1 tbl1 where g:
    "get_or_create tbl (str_int bid) (commit_sha h) (job_project h) (job_owner h)
       url c ''pending'' (srpm_id srpm) (db_trigger h) = (r1, tbl1)"
    by (cases "get_or_create tbl (str_int bid) (commit_sha h) (job_project h) (job_owner h)
       url c ''pending'' (srpm_id srpm) (db_trigger h)") auto
  from Cons.prems have ne: "t \<noteq> c" and notin: "t \<notin> set cs" by auto
  have "records_for (str_int bid) t tbl1 = records_for (str_int bid) t tbl"
    using get_or_create_records_for [OF g, of "str_int bid" t] ne by simp
  then show ?case
    using Cons.IH [OF notin, of tbl1] ne by (simp add: record_builds_Cons [OF g] del: record_builds.simps)
qed

lemma record_builds_target:
  "distinct ts \<Longrightarrow> t \<in> set ts \<Longrightarrow>
   \<exists>r. find (has_key (str_int bid) t) (snd (record_builds h srpm bid url ts tbl)) = Some r \<and>
       records_for (str_int bid) t (snd (record_builds h srpm bid url ts tbl)) =
         (if records_for (str_int bid) t tbl = [] then [r] else records_for (str_int bid) t tbl) \<and>
       filter (is_get_or_create_for t) (fst (record_builds h srpm bid url ts tbl)) =
         [GetOrCreate (str_int bid) (commit_sha h) (job_project h) (job_owner h)
            url t ''pending'' (srpm_id srpm) (db_trigger h)] \<and>
       filter (is_report_for_chroot t) (fst (record_builds h srpm bid url ts tbl)) =
         [ReportStatusToAllForChroot CommitStatus_pending ''Starting RPM build...''
            (get_copr_build_info_url_from_flask h (cb_id r)) t]"
proof (induction ts arbitrary: tbl)
  case Nil
  then show ?case by simp
next
  case (Cons c cs)
  obtain r1 tbl1 where g:
    "get_or_create tbl (str_int bid) (commit_sha h) (job_project h) (job_owner h)
       url c ''pending'' (srpm_id srpm) (db_trigger h) = (r1, tbl1)"
    by (cases "get_or_create tbl (str_int bid) (commit_sha h) (job_project h) (job_owner h)
       url c ''pending'' (srpm_id srpm) (db_trigger h)") auto
  from Cons.prems have notin: "c \<notin> set cs" and dist: "distinct cs" by auto
  show ?case
  proof (cases "t = c")
    case True
    have found: "find (has_key (str_int bid) t) tbl1 = Some r1"
      using get_or_create_find [OF g] True by simp
    have later: "find (has_key (str_int bid) t) (snd (record_builds h srpm bid url cs tbl1)) = Some r1"
      using record_builds_stable [OF found] .
    have recs: "records_for (str_int bid) t tbl1 =
                  (if records_for (str_int bid) t tbl = [] then [r1] else records_for (str_int bid) t tbl)"
      using get_or_create_records_for [OF g, of "str_int bid" t] True by simp
    show ?thesis
      using record_builds_other_target [of t cs bid h srpm url tbl1] notin True later recs
      by (simp add: record_builds_Cons [OF g] del: record_builds.simps)
  next
    case False
    with Cons.prems have mem: "t \<in> set cs" by auto
    have recs: "records_for (str_int bid) t tbl1 = records_for (str_int bid) t tbl"
      using get_or_create_records_for [OF g, of "str_int bid" t] False by simp
    show ?thesis
      using Cons.IH [OF dist mem, of tbl1] False recs
      by (auto simp add: record_builds_Cons [OF g] simp del: record_builds.simps)
  qed
qed

lemma record_builds_no_send_task:
  "filter is_send_task (fst (record_builds h srpm bid url ts tbl)) = []"
proof (induction ts arbitrary: tbl)
  case Nil
  then show ?case by simp
next
  case (Cons c cs)
  obtain r1 tbl1 where g:
    "get_or_create tbl (str_int bid) (commit_sha h) (job_project h) (job_owner h)
       url c ''pending'' (srpm_id srpm) (db_trigger h) = (r1, tbl1)"
    by (cases "get_or_create tbl (str_int bid) (commit_sha h) (job_project h) (job_owner h)
       url c ''pending'' (srpm_id srpm) (db_trigger h)") auto
  show ?case using Cons.IH [of tbl1] by (simp add: record_builds_Cons [OF g] del: record_builds.simps)
qed

text \<open>
  Claim C2. With neither a build job nor a tests job configured, \<open>run_copr_build\<close> returns the
  failure result with the message that no job is defined, makes no call to any collaborator
  (no status report, no source package build, no submission, no enqueue) and leaves the table
  of Copr builds as it was.
\<close>

theorem run_copr_build_no_job:
  assumes "job_build h = None" and "job_tests h = None"
  shows "run_copr_build h tbl =
           (Inr \<lparr>success = False, details = [(''msg'', ''No copr_build or tests job defined.'')]\<rparr>,
            [], tbl)"
  using assms by (simp add: run_copr_build_def)

theorem run_copr_build_no_job_witness:
  "job_build (example_helper\<lparr>job_build := None\<rparr>) = None \<and>
   job_tests (example_helper\<lparr>job_build := None\<rparr>) = None \<and>
   run_copr_build (example_helper\<lparr>job_build := None\<rparr>) [] =
     (Inr \<lparr>success = False, details = [(''msg'', ''No copr_build or tests job defined.'')]\<rparr>,
      [], [])"
  using run_copr_build_no_job [of "example_helper\<lparr>job_build := None\<rparr>" "[]"]
  by (simp add: example_helper_def)

lemma run_copr_build_success_path:
  assumes "job_build h \<noteq> None \<or> job_tests h \<noteq> None"
    and "create_srpm_outcome h = Inr srpm" and "srpm_success srpm"
    and "run_build h None = (Inr (build_id, web_url), submitted)"
  shows "run_copr_build h tbl =
           (Inr \<lparr>success = True, details = []\<rparr>,
            [ReportStatusToAll CommitStatus_pending ''Building SRPM ...'' (Some []),
             CreateSrpmIfNeeded] @ submitted @
            fst (record_builds h srpm build_id web_url (build_targets h) tbl) @
            [SendTask ''task.babysit_copr_build'' [build_id] 120],
            snd (record_builds h srpm build_id web_url (build_targets h) tbl))"
  using assms by (auto simp: run_copr_build_def Let_def split: prod.splits)

lemma example_run_copr_build:
  "run_copr_build example_helper [] =
     (Inr \<lparr>success = True, details = []\<rparr>,
      [ReportStatusToAll CommitStatus_pending ''Building SRPM ...'' (Some []),
       CreateSrpmIfNeeded,
       CreateCoprProjectIfNotExists ''packit-hello-world-7''
         [''fedora-32-x86_64'', ''fedora-33-x86_64''] ''packit'' (Some False) (Some True) None,
       CreateFromFile ''packit'' ''packit-hello-world-7'' ''hello-0.1.src.rpm'',
       GetOrCreate ''52'' ''0e5d8b51'' ''packit-hello-world-7'' (Some ''packit'')
         ''https://copr/build/52'' ''fedora-32-x86_64'' ''pending'' 3 1,
       ReportStatusToAllForChroot CommitStatus_pending ''Starting RPM build...''
         ''https://dashboard/copr/1'' ''fedora-32-x86_64'',
       GetOrCreate ''52'' ''0e5d8b51'' ''packit-hello-world-7'' (Some ''packit'')
         ''https://copr/build/52'' ''fedora-33-x86_64'' ''pending'' 3 1,
       ReportStatusToAllForChroot CommitStatus_pending ''Starting RPM build...''
         ''https://dashboard/copr/2'' ''fedora-33-x86_64'',
       SendTask ''task.babysit_copr_build'' [52] 120],
      [\<lparr>cb_id = 1, cb_build_id = ''52'', cb_commit_sha = ''0e5d8b51'',
        cb_project_name = ''packit-hello-world-7'', cb_owner = Some ''packit'',
        cb_web_url = ''https://copr/build/52'', cb_target = ''fedora-32-x86_64'',
        cb_status = ''pending'', cb_srpm_build = 3, cb_trigger_model = 1\<rparr>,
       \<lparr>cb_id = 2, cb_build_id = ''52'', cb_commit_sha = ''0e5d8b51'',
        cb_project_name = ''packit-hello-world-7'', cb_owner = Some ''packit'',
        cb_web_url = ''https://copr/build/52'', cb_target = ''fedora-33-x86_64'',
        cb_status = ''pending'', cb_srpm_build = 3, cb_trigger_model = 1\<rparr>])"
  by code_simp

lemma example_facts:
  "job_build example_helper \<noteq> None"
  "create_srpm_outcome example_helper = Inr \<lparr>srpm_id = 3, srpm_success = True\<rparr>"
  "build_targets example_helper = [''fedora-32-x86_64'', ''fedora-33-x86_64'']"
  by (simp_all add: example_helper_def build_targets_def)

text \<open>
  Claim C1. When \<open>run_copr_build\<close> reaches the submission (a job is configured, the source
  package is built) and \<open>run_build\<close> returns a build id and web url, then it returns the success
  result, enqueues exactly one task, \<open>task.babysit_copr_build\<close> on the build id with a countdown
  of 120, and for every build target: the table afterwards has a record under the key (build
  id, target), created with status pending when the table had none; exactly one
  \<open>get_or_create\<close> call is made for the target, with status pending; and exactly one status
  report is made for that chroot, pending, "Starting RPM build...", with the url of the detail
  page of that record.
\<close>

theorem run_copr_build_submitted:
  assumes "job_build h \<noteq> None \<or> job_tests h \<noteq> None"
    and "create_srpm_outcome h = Inr srpm" and "srpm_success srpm"
    and "run_build h None = (Inr (build_id, web_url), submitted)"
  shows "result_of (run_copr_build h tbl) = Inr \<lparr>success = True, details = []\<rparr> \<and>
         filter is_send_task (calls_of (run_copr_build h tbl)) =
           [SendTask ''task.babysit_copr_build'' [build_id] 120] \<and>
         (\<forall>t \<in> set (build_targets h). \<exists>r.
            find (has_key (str_int build_id) t) (table_of (run_copr_build h tbl)) = Some r \<and>
            records_for (str_int build_id) t (table_of (run_copr_build h tbl)) =
              (if records_for (str_int build_id) t tbl = [] then [r]
               else records_for (str_int build_id) t tbl) \<and>
            filter (is_get_or_create_for t) (calls_of (run_copr_build h tbl)) =
              [GetOrCreate (str_int build_id) (commit_sha h) (job_project h) (job_owner h)
                 web_url t ''pending'' (srpm_id srpm) (db_trigger h)] \<and>
            filter (is_report_for_chroot t) (calls_of (run_copr_build h tbl)) =
              [ReportStatusToAllForChroot CommitStatus_pending ''Starting RPM build...''
                 (get_copr_build_info_url_from_flask h (cb_id r)) t])"
proof -
  note run = run_copr_build_success_path [OF assms, of tbl]
  have sub: "snd (run_build h None) = submitted"
    using assms(4) by simp
  have f1: "filter is_send_task submitted = []"
    and f2: "\<And>t. filter (is_get_or_create_for t) submitted = []"
    and f3: "\<And>t. filter (is_report_for_chroot t) submitted = []"
    using run_build_filters [where h = h and target = None] sub by simp_all
  have res: "result_of (run_copr_build h tbl) = Inr \<lparr>success = True, details = []\<rparr>"
    by (simp add: run result_of_def)
  have task: "filter is_send_task (calls_of (run_copr_build h tbl)) =
           [SendTask ''task.babysit_copr_build'' [build_id] 120]"
    by (simp add: run calls_of_def f1 record_builds_no_send_task)
  have each: "\<exists>r.
            find (has_key (str_int build_id) t) (table_of (run_copr_build h tbl)) = Some r \<and>
            records_for (str_int build_id) t (table_of (run_copr_build h tbl)) =
              (if records_for (str_int build_id) t tbl = [] then [r]
               else records_for (str_int build_id) t tbl) \<and>
            filter (is_get_or_create_for t) (calls_of (run_copr_build h tbl)) =
              [GetOrCreate (str_int build_id) (commit_sha h) (job_project h) (job_owner h)
                 web_url t ''pending'' (srpm_id srpm) (db_trigger h)] \<and>
            filter (is_report_for_chroot t) (calls_of (run_copr_build h tbl)) =
              [ReportStatusToAllForChroot CommitStatus_pending ''Starting RPM build...''
                 (get_copr_build_info_url_from_flask h (cb_id r)) t]"
    if t: "t \<in> set (build_targets h)" for t
  proof -
    have d: "distinct (build_targets h)"
      by (simp add: build_targets_def)
    from record_builds_target [OF d t, of build_id h srpm web_url tbl]
    show ?thesis
      by (simp add: run calls_of_def table_of_def f2 f3)
  qed
  show ?thesis
    using res task each by blast
qed

theorem run_copr_build_submitted_witness:
  "job_build example_helper \<noteq> None \<and>
   create_srpm_outcome example_helper = Inr \<lparr>srpm_id = 3, srpm_success = True\<rparr> \<and>
   srpm_success \<lparr>srpm_id = 3, srpm_success = True\<rparr> \<and>
   fst (run_build example_helper None) = Inr (52, ''https://copr/build/52'') \<and>
   ''fedora-33-x86_64'' \<in> set (build_targets example_helper) \<and>
   result_of (run_copr_build example_helper []) = Inr \<lparr>success = True, details = []\<rparr> \<and>
   filter is_send_task (calls_of (run_copr_build example_helper [])) =
     [SendTask ''task.babysit_copr_build'' [52] 120] \<and>
   filter (is_report_for_chroot ''fedora-33-x86_64'') (calls_of (run_copr_build example_helper [])) =
     [ReportStatusToAllForChroot CommitStatus_pending ''Starting RPM build...''
        ''https://dashboard/copr/2'' ''fedora-33-x86_64''] \<and>
   map cb_id (records_for ''52'' ''fedora-33-x86_64'' (table_of (run_copr_build example_helper []))) = [2]"
  using run_copr_build_submitted [of example_helper "\<lparr>srpm_id = 3, srpm_success = True\<rparr>" 52
      "''https://copr/build/52''" _ "[]"]
  by (simp add: example_run_copr_build example_run_build example_facts result_of_def
      calls_of_def table_of_def records_for_def has_key_def)

text \<open>
  Claim C3. When the source package build fails (the record has \<open>success\<close> false),
  \<open>run_copr_build\<close> reports the failure status to all with the url of the SRPM log, returns the
  failure result, leaves the table as it was, and makes no call that submits a build.
\<close>

theorem run_copr_build_srpm_failed:
  assumes "job_build h \<noteq> None \<or> job_tests h \<noteq> None"
    and "create_srpm_outcome h = Inr srpm" and "\<not> srpm_success srpm"
  shows "run_copr_build h tbl =
           (Inr \<lparr>success = False,
                 details = [(''msg'', ''SRPM build failed, check the logs for details.'')]\<rparr>,
            [ReportStatusToAll CommitStatus_pending ''Building SRPM ...'' (Some []),
             CreateSrpmIfNeeded,
             ReportStatusToAll CommitStatus_failure
               ''SRPM build failed, check the logs for details.''
               (Some (get_srpm_log_url_from_flask h (srpm_id srpm)))],
            tbl) \<and>
         filter is_create_from_file (calls_of (run_copr_build h tbl)) = []"
  using assms by (auto simp: run_copr_build_def Let_def calls_of_def)

theorem run_copr_build_srpm_failed_witness:
  "job_build srpm_failed_helper \<noteq> None \<and>
   create_srpm_outcome srpm_failed_helper = Inr \<lparr>srpm_id = 3, srpm_success = False\<rparr> \<and>
   \<not> srpm_success \<lparr>srpm_id = 3, srpm_success = False\<rparr> \<and>
   run_copr_build srpm_failed_helper [] =
     (Inr \<lparr>success = False,
           details = [(''msg'', ''SRPM build failed, check the logs for details.'')]\<rparr>,
      [ReportStatusToAll CommitStatus_pending ''Building SRPM ...'' (Some []),
       CreateSrpmIfNeeded,
       ReportStatusToAll CommitStatus_failure
         ''SRPM build failed, check the logs for details.''
         (Some ''https://dashboard/srpm/3'')],
      [])"
  using run_copr_build_srpm_failed [of srpm_failed_helper
      "\<lparr>srpm_id = 3, srpm_success = False\<rparr>" "[]"]
  by (simp add: srpm_failed_helper_def example_helper_def str_nat.simps digit_char_def)


lemma handlers_no_submit:
  "filter is_create_from_file (on_settings_exception h ow changes) = []"
  "filter is_create_from_file (on_copr_request_exception h ow m) = []"
  by (auto simp: on_settings_exception_def on_copr_request_exception_def Let_def
           split: option.splits)

lemma run_build_submits_once:
  "length (filter is_create_from_file (snd (run_build h target))) \<le> 1"
  by (auto simp: run_build_def Let_def handlers_no_submit
           split: option.splits sum.splits exn.splits)

lemma record_builds_no_submit:
  "filter is_create_from_file (fst (record_builds h srpm bid url ts tbl)) = []"
proof (induction ts arbitrary: tbl)
  case Nil
  then show ?case by simp
next
  case (Cons c cs)
  obtain r1 tbl1 where g:
    "get_or_create tbl (str_int bid) (commit_sha h) (job_project h) (job_owner h)
       url c ''pending'' (srpm_id srpm) (db_trigger h) = (r1, tbl1)"
    by (cases "get_or_create tbl (str_int bid) (commit_sha h) (job_project h) (job_owner h)
       url c ''pending'' (srpm_id srpm) (db_trigger h)") auto
  show ?case
    using Cons.IH [of tbl1] by (simp add: record_builds_Cons [OF g] del: record_builds.simps)
qed

lemma run_copr_build_failure_path:
  assumes "job_build h \<noteq> None \<or> job_tests h \<noteq> None"
    and "create_srpm_outcome h = Inr srpm" and "srpm_success srpm"
    and "run_build h None = (Inl ex, submitted)"
  shows "run_copr_build h tbl =
           (Inr \<lparr>success = False,
                 details = [(''msg'', ''Submit of the Copr build failed.''),
                            (''error'', str_exn ex)]\<rparr>,
            [ReportStatusToAll CommitStatus_pending ''Building SRPM ...'' (Some []),
             CreateSrpmIfNeeded] @ submitted @
            [SendToSentry ex,
             ReportStatusToAll CommitStatus_error
               (''Submit of the build failed: '' @ str_exn ex) None],
            tbl)"
  using assms by (auto simp: run_copr_build_def Let_def)

section \<open>Properties of the workflow when notifications and bookkeeping may fail\<close>

lemma raises_nothing: "raises (\<lambda>c. None) c = None"
  by (cases c) simp_all

lemma perform_no_faults: "perform (\<lambda>c. None) cs = (None, cs)"
  by (induction cs) (simp_all add: raises_nothing)




text \<open>With no failing call the two readings of the workflow agree.\<close>

lemma run_build_with_faults_agrees:
  "run_build_with_faults (\<lambda>c. None) h target = run_build h target"
  by (simp add: run_build_with_faults_def run_build_def perform_no_faults Let_def
           split: option.splits sum.splits exn.splits)

lemma record_builds_with_faults_agrees:
  "record_builds_with_faults (\<lambda>c. None) h srpm bid url ts tbl =
     (None, fst (record_builds h srpm bid url ts tbl), snd (record_builds h srpm bid url ts tbl))"
  by (induction ts arbitrary: tbl) (simp_all add: raises_nothing Let_def split: prod.splits)

lemma run_copr_build_with_faults_agrees:
  "run_copr_build_with_faults (\<lambda>c. None) h tbl = run_copr_build h tbl"
  by (simp add: run_copr_build_with_faults_def run_copr_build_def run_build_with_faults_agrees
        record_builds_with_faults_agrees raises_nothing Let_def
      split: option.splits sum.splits prod.splits)







section \<open>Properties of the allowlist\<close>

lemma upsert_names:
  "map account_name (upsert tbl name st) =
     (if name \<in> set (map account_name tbl) then map account_name tbl
      else map account_name tbl @ [name])"
  by (induction tbl) auto

lemma upsert_distinct:
  "distinct (map account_name tbl) \<Longrightarrow> distinct (map account_name (upsert tbl name st))"
  by (simp add: upsert_names)

lemma remove_account_distinct:
  "distinct (map account_name tbl) \<Longrightarrow> distinct (map account_name (remove_account tbl name))"
  by (simp add: remove_account_def distinct_map_filter)

lemma apply_op_distinct:
  "distinct (map account_name tbl) \<Longrightarrow> distinct (map account_name (apply_op tbl op))"
  by (cases op) (simp_all add: add_account_def upsert_distinct remove_account_distinct)

lemma run_ops_distinct:
  "distinct (map account_name tbl) \<Longrightarrow> distinct (map account_name (run_ops tbl ops))"
  unfolding run_ops_def
  by (induction ops arbitrary: tbl) (simp_all add: apply_op_distinct)

lemma get_account_upsert:
  "get_account (upsert tbl name st) name = Some \<lparr>account_name = name, status = st\<rparr>"
  by (induction tbl) (auto simp: get_account_def)

lemma upsert_count:
  "distinct (map account_name tbl) \<Longrightarrow>
   length (filter (\<lambda>e. account_name e = name) (upsert tbl name st)) = 1"
proof (induction tbl)
  case Nil
  then show ?case by simp
next
  case (Cons e es)
  show ?case
  proof (cases "account_name e = name")
    case True
    with Cons.prems have "name \<notin> account_name ` set es" by auto
    then have "filter (\<lambda>e. account_name e = name) es = []"
      by (auto simp: filter_empty_conv)
    with True show ?thesis by simp
  next
    case False
    with Cons show ?thesis by simp
  qed
qed

lemma by_status_distinct:
  "distinct (map account_name tbl) \<Longrightarrow> distinct (get_accounts_by_status tbl st)"
  by (simp add: get_accounts_by_status_def distinct_map_filter)

lemma fixture_value:
  "multiple_allowlist_entries =
     [\<lparr>account_name = ''Rayquaza'', status = ''approved_manually''\<rparr>,
      \<lparr>account_name = ''Deoxys'', status = ''waiting''\<rparr>,
      \<lparr>account_name = ''Solgaleo'', status = ''waiting''\<rparr>,
      \<lparr>account_name = ''Zacian'', status = ''approved_manually''\<rparr>]"
  by (simp add: multiple_allowlist_entries_def run_ops_def add_account_def)

text \<open>
  Claim C8. In every table reached from the empty one by adding and removing accounts, no two
  entries have the same account name. Adding an account to such a table leaves exactly one
  entry for it, with the status given last, whether or not the account was there before; the
  list of accounts with a given status names no account twice. In the fixture of the tests,
  where Deoxys is added as approved_manually and then as waiting, fetching Deoxys gives the
  one entry with status waiting.
\<close>

theorem allowlist_one_entry_per_account:
  "distinct (map account_name (run_ops [] ops)) \<and>
   get_account (snd (add_account (run_ops [] ops) name st)) name =
     Some \<lparr>account_name = name, status = st\<rparr> \<and>
   length (filter (\<lambda>e. account_name e = name) (snd (add_account (run_ops [] ops) name st))) = 1 \<and>
   distinct (get_accounts_by_status (run_ops [] ops) st') \<and>
   get_account multiple_allowlist_entries ''Deoxys'' =
     Some \<lparr>account_name = ''Deoxys'', status = ''waiting''\<rparr> \<and>
   length (filter (\<lambda>e. account_name e = ''Deoxys'') multiple_allowlist_entries) = 1 \<and>
   get_accounts_by_status multiple_allowlist_entries ''waiting'' = [''Deoxys'', ''Solgaleo'']"
proof -
  have d: "distinct (map account_name (run_ops [] ops))"
    using run_ops_distinct [of "[]" ops] by simp
  have g: "get_account (snd (add_account (run_ops [] ops) name st)) name =
     Some \<lparr>account_name = name, status = st\<rparr>"
    by (simp add: add_account_def get_account_upsert)
  have c: "length (filter (\<lambda>e. account_name e = name)
             (snd (add_account (run_ops [] ops) name st))) = 1"
    using upsert_count [OF d] by (simp add: add_account_def)
  have s: "distinct (get_accounts_by_status (run_ops [] ops) st')"
    using by_status_distinct [OF d] .
  have f: "get_account multiple_allowlist_entries ''Deoxys'' =
     Some \<lparr>account_name = ''Deoxys'', status = ''waiting''\<rparr> \<and>
     length (filter (\<lambda>e. account_name e = ''Deoxys'') multiple_allowlist_entries) = 1 \<and>
     get_accounts_by_status multiple_allowlist_entries ''waiting'' = [''Deoxys'', ''Solgaleo'']"
    by (simp add: fixture_value get_account_def get_accounts_by_status_def)
  show ?thesis
    using d g c s f by blast
qed

section \<open>Properties of the allowlist command line\<close>

lemma length_str_join:
  "length (str_join sep xs) = sum_list (map length xs) + length sep * (length xs - 1)"
  by (induction sep xs rule: str_join.induct) simp_all

text \<open>
  Claim C9. The command \<open>waiting\<close> prints one line: the heading, then the accounts the store
  lists with status waiting, joined by a comma and a space. Nothing else is printed per
  account: the line is as long as the heading, the names, the separators between them and the
  end of line together. In the fixture of the tests it prints Deoxys and Solgaleo.
\<close>

theorem waiting_output:
  "waiting tbl =
     ''Accounts waiting for approval: '' @
     str_join '', '' (get_accounts_by_status tbl ''waiting'') @ ''\<newline>'' \<and>
   length (waiting tbl) =
     31 + (sum_list (map length (get_accounts_by_status tbl ''waiting'')) +
           2 * (length (get_accounts_by_status tbl ''waiting'') - 1)) + 1 \<and>
   waiting multiple_allowlist_entries =
     ''Accounts waiting for approval: Deoxys, Solgaleo\<newline>''"
proof -
  have a: "waiting tbl =
     ''Accounts waiting for approval: '' @
     str_join '', '' (get_accounts_by_status tbl ''waiting'') @ ''\<newline>''"
    by (simp only: waiting_def accounts_waiting_def)
  have b: "length (waiting tbl) =
     31 + (sum_list (map length (get_accounts_by_status tbl ''waiting'')) +
           2 * (length (get_accounts_by_status tbl ''waiting'') - 1)) + 1"
    by (simp add: a length_str_join)
  have c: "waiting multiple_allowlist_entries =
     ''Accounts waiting for approval: Deoxys, Solgaleo\<newline>''"
    by (simp add: waiting_def accounts_waiting_def fixture_value get_accounts_by_status_def)
  show ?thesis
    using a b c by blast
qed

end
